theory Spec2Isabelle
  imports Complex_Main "HOL-Library.AList"
begin

section \<open>Python values, dictionaries and exceptions\<close>

text \<open>
  The scanner passes its results around as Python dictionaries with string keys and
  serialises them with \<^verbatim>\<open>json.dump\<close>. A dictionary is an association list in
  insertion order: a dict literal is the list of its items, \<^verbatim>\<open>d[k] = v\<close> is
  \<^const>\<open>AList.update\<close> (which overwrites in place or appends a new key at the end, as
  Python does), and \<^verbatim>\<open>d[k]\<close> is \<^const>\<open>map_of\<close>, with \<^verbatim>\<open>KeyError\<close> for a missing
  key.
\<close>

datatype py_value =
    PyStr string
  | PyInt int
  | PyList "py_value list"
  | PyDict "(string \<times> py_value) list"

type_synonym py_dict = "(string \<times> py_value) list"

text \<open>
  An exception is its class and the text \<^verbatim>\<open>str(e)\<close>. The classes are the ones the
  calls of this program raise: the socket module's \<^verbatim>\<open>OSError\<close> family
  (\<^verbatim>\<open>socket.gaierror\<close>, \<^verbatim>\<open>socket.herror\<close>, \<^verbatim>\<open>socket.timeout\<close>), the argument
  errors \<^verbatim>\<open>OverflowError\<close>, \<^verbatim>\<open>ValueError\<close>, \<^verbatim>\<open>TypeError\<close>, \<^verbatim>\<open>UnicodeError\<close>,
  and \<^verbatim>\<open>KeyError\<close> of a dictionary lookup. All of them derive from \<^verbatim>\<open>Exception\<close>.
  Exceptions that do not (\<^verbatim>\<open>KeyboardInterrupt\<close>, \<^verbatim>\<open>SystemExit\<close>) have a section of
  their own below.
\<close>

datatype exc_class =
    OSError | Gaierror | Herror | TimeoutError
  | OverflowError | ValueError | TypeError | UnicodeError | KeyError

datatype py_exc = PyExc (exc_cls: exc_class) (exc_str: string)

text \<open>A call of the library either returns a value or raises.\<close>

datatype 'a outcome = Returns 'a | Raises py_exc

section \<open>The socket calls of one probe\<close>

text \<open>
  What the network and the operating system answer is not in the program. Each probe
  opens a socket of its own, so the model hands every probe the answers its calls get:
  \<^item> \<open>socket_new\<close>: \<^verbatim>\<open>socket.socket(AF_INET, SOCK_STREAM)\<close>;
  \<^item> \<open>settimeout\<close>: \<^verbatim>\<open>s.settimeout(timeout)\<close>, by the timeout passed;
  \<^item> \<open>connect_ex\<close>: \<^verbatim>\<open>s.connect_ex((host, port))\<close>, the error indicator (0 on success,
    an errno otherwise) or an exception (host not found, port out of range);
  \<^item> \<open>getservbyport\<close>: \<^verbatim>\<open>socket.getservbyport(port, proto)\<close>;
  \<^item> \<open>sock_close\<close>: the \<^verbatim>\<open>close()\<close> that leaving the \<^verbatim>\<open>with\<close> block runs.

  The timeout is a Python float that the program only hands on to \<open>settimeout\<close>; it is
  a \<^typ>\<open>real\<close> here and no arithmetic is done on it.
\<close>

record sock_calls =
  socket_new :: "unit outcome"
  settimeout :: "real \<Rightarrow> unit outcome"
  connect_ex :: "string \<Rightarrow> int \<Rightarrow> int outcome"
  getservbyport :: "int \<Rightarrow> string \<Rightarrow> string outcome"
  sock_close :: "unit outcome"

section \<open>The thread pool\<close>

text \<open>
  \<^verbatim>\<open>concurrent.futures.ThreadPoolExecutor\<close>, as far as the scanner uses it. The
  constructor refuses a worker count that is not positive. \<^verbatim>\<open>submit\<close> hands back a
  future for the call; the model keeps in the future its number and the outcome of the
  call when a worker runs it. The pool records which futures the workers have finished,
  and with which outcome.
\<close>

datatype 'a future = Future (fid: nat) (work: 'a)

record 'a thread_pool =
  max_workers :: int
  submitted :: nat
  finished :: "nat \<rightharpoonup> 'a"

definition ThreadPoolExecutor :: "int \<Rightarrow> 'a thread_pool outcome" where
  "ThreadPoolExecutor n =
     (if n \<le> 0 then Raises (PyExc ValueError ''max_workers must be greater than 0'')
      else Returns \<lparr>max_workers = n, submitted = 0, finished = Map.empty\<rparr>)"

definition submit :: "'a \<Rightarrow> 'a thread_pool \<Rightarrow> 'a future \<times> 'a thread_pool" where
  "submit call pool =
     (Future (submitted pool) call, pool\<lparr>submitted := submitted pool + 1\<rparr>)"

text \<open>
  The workers finish the submitted calls in an order the program does not control.
  \<open>order\<close> lists positions in the list of futures, in the order in which the workers
  finish them before the caller asks for the results; a position that names no future
  is skipped. \<^verbatim>\<open>future.result()\<close> blocks until its future is finished: a future the
  workers had not finished yet is finished while the caller waits, and the call then
  returns what the work returned.
\<close>

definition worker_finishes :: "'a future \<Rightarrow> 'a thread_pool \<Rightarrow> 'a thread_pool" where
  "worker_finishes f pool = pool\<lparr>finished := (finished pool)(fid f \<mapsto> work f)\<rparr>"

definition workers_run :: "nat list \<Rightarrow> 'a future list \<Rightarrow> 'a thread_pool \<Rightarrow> 'a thread_pool" where
  "workers_run order futures pool =
     fold (\<lambda>k pool. if k < length futures then worker_finishes (futures ! k) pool else pool)
       order pool"

definition future_result :: "'a future \<Rightarrow> 'a thread_pool \<Rightarrow> 'a" where
  "future_result f pool =
     (case finished pool (fid f) of Some r \<Rightarrow> r | None \<Rightarrow> work f)"

section \<open>Variant 1: scanner.py\<close>

text \<open>
  The body of the \<^verbatim>\<open>with\<close> block of \<^verbatim>\<open>scan_port\<close>: it returns the dictionary as it
  stands when the block is left, and the exception that left it, if any. The inner
  \<^verbatim>\<open>try: ... except: pass\<close> around \<^verbatim>\<open>getservbyport\<close> swallows whatever that call
  raises.
\<close>

definition scan_port_with :: "sock_calls \<Rightarrow> string \<Rightarrow> int \<Rightarrow> real \<Rightarrow> py_dict \<Rightarrow> py_dict \<times> py_exc option" where
  "scan_port_with s host port timeout result =
     (case settimeout s timeout of
        Raises e \<Rightarrow> (result, Some e)
      | Returns _ \<Rightarrow>
          (case connect_ex s host port of
             Raises e \<Rightarrow> (result, Some e)
           | Returns rc \<Rightarrow>
               if rc = 0 then
                 (let result = AList.update ''status'' (PyStr ''open'') result in
                  case getservbyport s port ''tcp'' of
                    Returns name \<Rightarrow> (AList.update ''service'' (PyStr name) result, None)
                  | Raises _ \<Rightarrow> (result, None))
               else (result, None)))"

text \<open>
  The \<^verbatim>\<open>try\<close> block: creating the socket may raise; otherwise the \<^verbatim>\<open>with\<close> block
  runs and the socket is closed on the way out, whether the block raised or not. An
  exception of \<^verbatim>\<open>close()\<close> is the one that leaves the \<^verbatim>\<open>with\<close> statement.
\<close>

definition scan_port_try :: "sock_calls \<Rightarrow> string \<Rightarrow> int \<Rightarrow> real \<Rightarrow> py_dict \<Rightarrow> py_dict \<times> py_exc option" where
  "scan_port_try s host port timeout result =
     (case socket_new s of
        Raises e \<Rightarrow> (result, Some e)
      | Returns _ \<Rightarrow>
          (case scan_port_with s host port timeout result of
             (result, raised) \<Rightarrow>
               (case sock_close s of
                  Raises e \<Rightarrow> (result, Some e)
                | Returns _ \<Rightarrow> (result, raised))))"

text \<open>
  \<^verbatim>\<open>scan_port(host, port, timeout=1.0)\<close>: the dictionary starts as closed and unknown;
  \<^verbatim>\<open>except Exception as e\<close> stores \<^verbatim>\<open>str(e)\<close> under \<^verbatim>\<open>"error"\<close>.
\<close>

definition scan_port :: "sock_calls \<Rightarrow> string \<Rightarrow> int \<Rightarrow> real \<Rightarrow> py_dict" where
  "scan_port s host port timeout =
     (let result = [(''host'', PyStr host), (''port'', PyInt port),
                    (''status'', PyStr ''closed''), (''service'', PyStr ''unknown'')]
      in case scan_port_try s host port timeout result of
           (result, None) \<Rightarrow> result
         | (result, Some e) \<Rightarrow> AList.update ''error'' (PyStr (exc_str e)) result)"

text \<open>The default of the parameter \<^verbatim>\<open>timeout\<close>, which a call without it gets.\<close>

definition default_timeout :: real where
  "default_timeout = 1.0"

text \<open>
  \<^verbatim>\<open>port_scanner(host, start_port, end_port, max_threads=100)\<close>. \<open>net port\<close> is what
  the socket calls of the probe of \<open>port\<close> answer. The list comprehension submits one
  \<^verbatim>\<open>scan_port(host, port)\<close> (so with the default timeout) per port of
  \<^verbatim>\<open>range(start_port, end_port + 1)\<close>; the loop then appends \<^verbatim>\<open>future.result()\<close>
  for the futures in the order of that list.
\<close>

definition port_scanner ::
  "(int \<Rightarrow> sock_calls) \<Rightarrow> nat list \<Rightarrow> string \<Rightarrow> int \<Rightarrow> int \<Rightarrow> int \<Rightarrow> py_dict list outcome" where
  "port_scanner net order host start_port end_port max_threads =
     (let results = [] in
      case ThreadPoolExecutor max_threads of
        Raises e \<Rightarrow> Raises e
      | Returns executor \<Rightarrow>
          (case fold (\<lambda>port (futures, executor).
                    case submit (scan_port (net port) host port default_timeout) executor of
                      (future, executor) \<Rightarrow> (futures @ [future], executor))
                  [start_port..end_port] ([], executor) of
             (futures, executor) \<Rightarrow>
               (let executor = workers_run order futures executor in
                Returns (fold (\<lambda>future results. results @ [future_result future executor])
                          futures results))))"

text \<open>
  \<^verbatim>\<open>d[k]\<close> on a dictionary.
\<close>

definition getitem :: "py_dict \<Rightarrow> string \<Rightarrow> py_value outcome" where
  "getitem d k =
     (case map_of d k of
        Some v \<Rightarrow> Returns v
      | None \<Rightarrow> Raises (PyExc KeyError ([CHR 0x27] @ k @ [CHR 0x27])))"

text \<open>
  \<^verbatim>\<open>export_to_json(data, filename)\<close>. \<open>now\<close> is \<^verbatim>\<open>datetime.now().isoformat()\<close>,
  \<open>open_w\<close> says whether \<^verbatim>\<open>open(filename, "w")\<close> succeeds, and \<open>files\<close> holds the JSON
  document of each file written (the value that \<^verbatim>\<open>json.dump\<close> serialises; its text and
  indentation are not modelled). The function returns the files and the line it prints.
\<close>

definition export_to_json ::
  "string \<Rightarrow> (string \<Rightarrow> unit outcome) \<Rightarrow> py_dict list \<Rightarrow> string \<Rightarrow> (string \<rightharpoonup> py_value)
     \<Rightarrow> ((string \<rightharpoonup> py_value) \<times> string) outcome" where
  "export_to_json now open_w data filename files =
     (case (if data \<noteq> [] then getitem (hd data) ''host'' else Returns (PyStr ''unknown'')) of
        Raises e \<Rightarrow> Raises e
      | Returns host \<Rightarrow>
          (let report = [(''timestamp'', PyStr now), (''host'', host),
                         (''scan_results'', PyList (map PyDict data))]
           in case open_w filename of
                Raises e \<Rightarrow> Raises e
              | Returns _ \<Rightarrow>
                  Returns (files(filename \<mapsto> PyDict report), ''Results saved to '' @ filename)))"

section \<open>Variant 2: scanner3.py\<close>

text \<open>
  scanner3.py has its own \<^verbatim>\<open>scan_port\<close>, \<^verbatim>\<open>port_scanner\<close> and \<^verbatim>\<open>export_to_json\<close>;
  they are translated from that file, with the suffix 3.
\<close>

definition scan_port3_with :: "sock_calls \<Rightarrow> string \<Rightarrow> int \<Rightarrow> real \<Rightarrow> py_dict \<Rightarrow> py_dict \<times> py_exc option" where
  "scan_port3_with s host port timeout result =
     (case settimeout s timeout of
        Raises e \<Rightarrow> (result, Some e)
      | Returns _ \<Rightarrow>
          (case connect_ex s host port of
             Raises e \<Rightarrow> (result, Some e)
           | Returns rc \<Rightarrow>
               if rc = 0 then
                 (let result = AList.update ''status'' (PyStr ''open'') result in
                  case getservbyport s port ''tcp'' of
                    Returns name \<Rightarrow> (AList.update ''service'' (PyStr name) result, None)
                  | Raises _ \<Rightarrow> (result, None))
               else (result, None)))"

definition scan_port3_try :: "sock_calls \<Rightarrow> string \<Rightarrow> int \<Rightarrow> real \<Rightarrow> py_dict \<Rightarrow> py_dict \<times> py_exc option" where
  "scan_port3_try s host port timeout result =
     (case socket_new s of
        Raises e \<Rightarrow> (result, Some e)
      | Returns _ \<Rightarrow>
          (case scan_port3_with s host port timeout result of
             (result, raised) \<Rightarrow>
               (case sock_close s of
                  Raises e \<Rightarrow> (result, Some e)
                | Returns _ \<Rightarrow> (result, raised))))"

definition scan_port3 :: "sock_calls \<Rightarrow> string \<Rightarrow> int \<Rightarrow> real \<Rightarrow> py_dict" where
  "scan_port3 s host port timeout =
     (let result = [(''host'', PyStr host), (''port'', PyInt port),
                    (''status'', PyStr ''closed''), (''service'', PyStr ''unknown'')]
      in case scan_port3_try s host port timeout result of
           (result, None) \<Rightarrow> result
         | (result, Some e) \<Rightarrow> AList.update ''error'' (PyStr (exc_str e)) result)"

text \<open>
  \<^verbatim>\<open>port_scanner(host, start_port, end_port, max_threads=100, timeout=1.0)\<close>: as in
  variant 1, with the timeout handed to every \<^verbatim>\<open>scan_port\<close>.
\<close>

definition port_scanner3 ::
  "(int \<Rightarrow> sock_calls) \<Rightarrow> nat list \<Rightarrow> string \<Rightarrow> int \<Rightarrow> int \<Rightarrow> int \<Rightarrow> real \<Rightarrow> py_dict list outcome" where
  "port_scanner3 net order host start_port end_port max_threads timeout =
     (let results = [] in
      case ThreadPoolExecutor max_threads of
        Raises e \<Rightarrow> Raises e
      | Returns executor \<Rightarrow>
          (case fold (\<lambda>port (futures, executor).
                    case submit (scan_port3 (net port) host port timeout) executor of
                      (future, executor) \<Rightarrow> (futures @ [future], executor))
                  [start_port..end_port] ([], executor) of
             (futures, executor) \<Rightarrow>
               (let executor = workers_run order futures executor in
                Returns (fold (\<lambda>future results. results @ [future_result future executor])
                          futures results))))"

definition export_to_json3 ::
  "string \<Rightarrow> (string \<Rightarrow> unit outcome) \<Rightarrow> py_dict list \<Rightarrow> string \<Rightarrow> (string \<rightharpoonup> py_value)
     \<Rightarrow> ((string \<rightharpoonup> py_value) \<times> string) outcome" where
  "export_to_json3 now open_w data filename files =
     (case (if data \<noteq> [] then getitem (hd data) ''host'' else Returns (PyStr ''unknown'')) of
        Raises e \<Rightarrow> Raises e
      | Returns host \<Rightarrow>
          (let report = [(''timestamp'', PyStr now), (''host'', host),
                         (''scan_results'', PyList (map PyDict data))]
           in case open_w filename of
                Raises e \<Rightarrow> Raises e
              | Returns _ \<Rightarrow>
                  Returns (files(filename \<mapsto> PyDict report), ''Results saved to '' @ filename)))"

subsection \<open>The command line of variant 2\<close>

text \<open>
  The namespace that \<^verbatim>\<open>argparse\<close> returns: the arguments are parsed already
  (\<^verbatim>\<open>--start\<close>, \<^verbatim>\<open>--end\<close> and \<^verbatim>\<open>--threads\<close> as integers, \<^verbatim>\<open>--timeout\<close> as a
  float, \<^verbatim>\<open>--output\<close> absent or a string).
\<close>

record args =
  arg_host :: string
  arg_start :: int
  arg_end :: int
  arg_threads :: int
  arg_timeout :: real
  arg_output :: "string option"

text \<open>
  What a run does that can be seen from outside, in order: the lines it prints (the
  formatted lines are kept by their parts), the error of \<^verbatim>\<open>parser.error\<close> (usage and
  message on standard error), the traceback of an exception nobody caught, and the calls
  that reach the network or the disk.
\<close>

datatype event =
    Print_scanning string int int
  | Print_line string
  | Print_summary nat "py_value list"
  | Parser_error string
  | Traceback py_exc
  | Call_gethostbyname string
  | Call_port_scanner string int int int real
  | Call_export_to_json string

record run =
  exit_status :: int
  events :: "event list"
  files_after :: "string \<rightharpoonup> py_value"

text \<open>
  Everything outside the program that a run depends on: name resolution, the socket calls
  of each probe, the order in which the workers finish, the clock, whether the output
  file can be opened, and the files before the run.
\<close>

record world =
  w_gethostbyname :: "string \<Rightarrow> string outcome"
  w_net :: "int \<Rightarrow> sock_calls"
  w_order :: "nat list"
  w_now :: string
  w_open :: "string \<Rightarrow> unit outcome"
  w_files :: "string \<rightharpoonup> py_value"

text \<open>
  \<^verbatim>\<open>parser.error(message)\<close> prints the usage and the message and exits with status 2;
  an exception that reaches the top level prints a traceback and exits with status 1.
\<close>

definition parser_error :: "(string \<rightharpoonup> py_value) \<Rightarrow> event list \<Rightarrow> string \<Rightarrow> run" where
  "parser_error files evs message =
     \<lparr>exit_status = 2, events = evs @ [Parser_error message], files_after = files\<rparr>"

definition uncaught :: "(string \<rightharpoonup> py_value) \<Rightarrow> event list \<Rightarrow> py_exc \<Rightarrow> run" where
  "uncaught files evs e =
     \<lparr>exit_status = 1, events = evs @ [Traceback e], files_after = files\<rparr>"

text \<open>
  \<^verbatim>\<open>[r["port"] for r in results if r["status"] == "open"]\<close>
\<close>

fun open_ports_of :: "py_dict list \<Rightarrow> py_value list outcome" where
  "open_ports_of [] = Returns []"
| "open_ports_of (r # results) =
     (case getitem r ''status'' of
        Raises e \<Rightarrow> Raises e
      | Returns st \<Rightarrow>
          if st = PyStr ''open'' then
            (case getitem r ''port'' of
               Raises e \<Rightarrow> Raises e
             | Returns p \<Rightarrow>
                 (case open_ports_of results of
                    Raises e \<Rightarrow> Raises e
                  | Returns ps \<Rightarrow> Returns (p # ps)))
          else open_ports_of results)"

text \<open>
  The \<^verbatim>\<open>__main__\<close> block of scanner3.py after \<^verbatim>\<open>parse_args\<close>: the three
  validations, each ending the run through \<^verbatim>\<open>parser.error\<close>; then the scan, the export
  (to \<^verbatim>\<open>args.output or f"scan_{args.host}.json"\<close>: an empty string is false in
  Python) and the summary. Only \<^verbatim>\<open>socket.gaierror\<close> of \<^verbatim>\<open>gethostbyname\<close> is caught.
\<close>

definition main3 :: "world \<Rightarrow> args \<Rightarrow> run" where
  "main3 w a =
     (if arg_start a < 1 \<or> arg_end a > 65535 \<or> arg_start a > arg_end a then
        parser_error (w_files w) [] ''Invalid port range. Ports must be between 1-65535 and start <= end.''
      else if arg_threads a < 1 \<or> arg_threads a > 1000 then
        parser_error (w_files w) [] ''Threads must be between 1 and 1000.''
      else
        (let evs = [Call_gethostbyname (arg_host a)] in
         case w_gethostbyname w (arg_host a) of
           Raises e \<Rightarrow>
             if exc_cls e = Gaierror then
               parser_error (w_files w) evs (''Cannot resolve host '' @ arg_host a)
             else uncaught (w_files w) evs e
         | Returns _ \<Rightarrow>
             (let evs = evs @ [Print_scanning (arg_host a) (arg_start a) (arg_end a),
                               Call_port_scanner (arg_host a) (arg_start a) (arg_end a)
                                 (arg_threads a) (arg_timeout a)]
              in case port_scanner3 (w_net w) (w_order w) (arg_host a) (arg_start a)
                        (arg_end a) (arg_threads a) (arg_timeout a) of
                   Raises e \<Rightarrow> uncaught (w_files w) evs e
                 | Returns results \<Rightarrow>
                     (let filename =
                            (case arg_output a of
                               None \<Rightarrow> ''scan_'' @ arg_host a @ ''.json''
                             | Some out \<Rightarrow>
                                 if out = [] then ''scan_'' @ arg_host a @ ''.json'' else out);
                          evs = evs @ [Call_export_to_json filename]
                      in case export_to_json3 (w_now w) (w_open w) results filename
                                (w_files w) of
                           Raises e \<Rightarrow> uncaught (w_files w) evs e
                         | Returns (files, line) \<Rightarrow>
                             (case open_ports_of results of
                                Raises e \<Rightarrow> uncaught files (evs @ [Print_line line]) e
                              | Returns open_ports \<Rightarrow>
                                  \<lparr>exit_status = 0,
                                   events = evs @ [Print_line line,
                                     Print_summary (length open_ports) open_ports],
                                   files_after = files\<rparr>)))))"

section \<open>Exceptions that do not derive from Exception\<close>

text \<open>
  \<^verbatim>\<open>KeyboardInterrupt\<close>, \<^verbatim>\<open>SystemExit\<close> and \<^verbatim>\<open>GeneratorExit\<close> derive from
  \<^verbatim>\<open>BaseException\<close> but not from \<^verbatim>\<open>Exception\<close>. The calls of a probe do not raise
  them by themselves; they reach a probe from outside, at one of its calls (an interrupt
  delivered while the call blocks, a call that has been replaced). The handler
  \<^verbatim>\<open>except Exception\<close> of \<^verbatim>\<open>scan_port\<close> does not catch them; the bare \<^verbatim>\<open>except:\<close>
  around the service lookup does. The definitions above leave these exceptions out: there
  every exception is a \<^typ>\<open>py_exc\<close>, whose class derives from \<^verbatim>\<open>Exception\<close>. The
  definitions of this section are the same functions of the two files with these
  exceptions in.
\<close>

datatype base_class = KeyboardInterrupt | SystemExit | GeneratorExit

datatype base_exc = BaseExc (base_cls: base_class) (base_str: string)

datatype raised = Derived py_exc | Underived base_exc

datatype call = At_socket | At_settimeout | At_connect_ex | At_getservbyport | At_close

text \<open>
  \<open>intr\<close> says, for each call of a probe, whether such an exception is raised at that
  call; if not, the call answers as the network has it.
\<close>

definition call_answer :: "(call \<Rightarrow> base_exc option) \<Rightarrow> call \<Rightarrow> 'a outcome \<Rightarrow> raised + 'a" where
  "call_answer intr c answer =
     (case intr c of
        Some b \<Rightarrow> Inl (Underived b)
      | None \<Rightarrow> (case answer of Returns v \<Rightarrow> Inr v | Raises e \<Rightarrow> Inl (Derived e)))"

subsection \<open>scanner.py\<close>

definition scan_port_with_intr ::
  "(call \<Rightarrow> base_exc option) \<Rightarrow> sock_calls \<Rightarrow> string \<Rightarrow> int \<Rightarrow> real \<Rightarrow> py_dict
     \<Rightarrow> py_dict \<times> raised option" where
  "scan_port_with_intr intr s host port timeout result =
     (case call_answer intr At_settimeout (settimeout s timeout) of
        Inl e \<Rightarrow> (result, Some e)
      | Inr _ \<Rightarrow>
          (case call_answer intr At_connect_ex (connect_ex s host port) of
             Inl e \<Rightarrow> (result, Some e)
           | Inr rc \<Rightarrow>
               if rc = 0 then
                 (let result = AList.update ''status'' (PyStr ''open'') result in
                  case call_answer intr At_getservbyport (getservbyport s port ''tcp'') of
                    Inr name \<Rightarrow> (AList.update ''service'' (PyStr name) result, None)
                  | Inl _ \<Rightarrow> (result, None))
               else (result, None)))"

definition scan_port_try_intr ::
  "(call \<Rightarrow> base_exc option) \<Rightarrow> sock_calls \<Rightarrow> string \<Rightarrow> int \<Rightarrow> real \<Rightarrow> py_dict
     \<Rightarrow> py_dict \<times> raised option" where
  "scan_port_try_intr intr s host port timeout result =
     (case call_answer intr At_socket (socket_new s) of
        Inl e \<Rightarrow> (result, Some e)
      | Inr _ \<Rightarrow>
          (case scan_port_with_intr intr s host port timeout result of
             (result, raised) \<Rightarrow>
               (case call_answer intr At_close (sock_close s) of
                  Inl e \<Rightarrow> (result, Some e)
                | Inr _ \<Rightarrow> (result, raised))))"

text \<open>
  \<^verbatim>\<open>except Exception as e\<close> handles an exception whose class derives from
  \<^verbatim>\<open>Exception\<close>; any other leaves \<^verbatim>\<open>scan_port\<close>, which then returns nothing.
\<close>

definition scan_port_intr ::
  "(call \<Rightarrow> base_exc option) \<Rightarrow> sock_calls \<Rightarrow> string \<Rightarrow> int \<Rightarrow> real \<Rightarrow> base_exc + py_dict" where
  "scan_port_intr intr s host port timeout =
     (let result = [(''host'', PyStr host), (''port'', PyInt port),
                    (''status'', PyStr ''closed''), (''service'', PyStr ''unknown'')]
      in case scan_port_try_intr intr s host port timeout result of
           (result, None) \<Rightarrow> Inr result
         | (result, Some (Derived e)) \<Rightarrow>
             Inr (AList.update ''error'' (PyStr (exc_str e)) result)
         | (result, Some (Underived b)) \<Rightarrow> Inl b)"

text \<open>
  The worker keeps whatever the call raised in the call's future, and
  \<^verbatim>\<open>future.result()\<close> raises it again in the caller: the loop
  \<^verbatim>\<open>for future in futures: results.append(future.result())\<close> ends at the first future,
  in the order of the list, whose call raised.
\<close>

fun append_results ::
  "(base_exc + py_dict) future list \<Rightarrow> (base_exc + py_dict) thread_pool \<Rightarrow> py_dict list
     \<Rightarrow> raised + py_dict list" where
  "append_results [] executor results = Inr results"
| "append_results (future # futures) executor results =
     (case future_result future executor of
        Inl b \<Rightarrow> Inl (Underived b)
      | Inr r \<Rightarrow> append_results futures executor (results @ [r]))"

text \<open>\<open>intr port\<close> are the exceptions from outside that reach the probe of \<open>port\<close>.\<close>

definition port_scanner_intr ::
  "(int \<Rightarrow> call \<Rightarrow> base_exc option) \<Rightarrow> (int \<Rightarrow> sock_calls) \<Rightarrow> nat list \<Rightarrow> string \<Rightarrow> int \<Rightarrow> int
     \<Rightarrow> int \<Rightarrow> raised + py_dict list" where
  "port_scanner_intr intr net order host start_port end_port max_threads =
     (let results = [] in
      case ThreadPoolExecutor max_threads of
        Raises e \<Rightarrow> Inl (Derived e)
      | Returns executor \<Rightarrow>
          (case fold (\<lambda>port (futures, executor).
                    case submit (scan_port_intr (intr port) (net port) host port
                                   default_timeout) executor of
                      (future, executor) \<Rightarrow> (futures @ [future], executor))
                  [start_port..end_port] ([], executor) of
             (futures, executor) \<Rightarrow>
               (let executor = workers_run order futures executor in
                append_results futures executor results)))"

subsection \<open>scanner3.py\<close>

definition scan_port3_with_intr ::
  "(call \<Rightarrow> base_exc option) \<Rightarrow> sock_calls \<Rightarrow> string \<Rightarrow> int \<Rightarrow> real \<Rightarrow> py_dict
     \<Rightarrow> py_dict \<times> raised option" where
  "scan_port3_with_intr intr s host port timeout result =
     (case call_answer intr At_settimeout (settimeout s timeout) of
        Inl e \<Rightarrow> (result, Some e)
      | Inr _ \<Rightarrow>
          (case call_answer intr At_connect_ex (connect_ex s host port) of
             Inl e \<Rightarrow> (result, Some e)
           | Inr rc \<Rightarrow>
               if rc = 0 then
                 (let result = AList.update ''status'' (PyStr ''open'') result in
                  case call_answer intr At_getservbyport (getservbyport s port ''tcp'') of
                    Inr name \<Rightarrow> (AList.update ''service'' (PyStr name) result, None)
                  | Inl _ \<Rightarrow> (result, None))
               else (result, None)))"

definition scan_port3_try_intr ::
  "(call \<Rightarrow> base_exc option) \<Rightarrow> sock_calls \<Rightarrow> string \<Rightarrow> int \<Rightarrow> real \<Rightarrow> py_dict
     \<Rightarrow> py_dict \<times> raised option" where
  "scan_port3_try_intr intr s host port timeout result =
     (case call_answer intr At_socket (socket_new s) of
        Inl e \<Rightarrow> (result, Some e)
      | Inr _ \<Rightarrow>
          (case scan_port3_with_intr intr s host port timeout result of
             (result, raised) \<Rightarrow>
               (case call_answer intr At_close (sock_close s) of
                  Inl e \<Rightarrow> (result, Some e)
                | Inr _ \<Rightarrow> (result, raised))))"

definition scan_port3_intr ::
  "(call \<Rightarrow> base_exc option) \<Rightarrow> sock_calls \<Rightarrow> string \<Rightarrow> int \<Rightarrow> real \<Rightarrow> base_exc + py_dict" where
  "scan_port3_intr intr s host port timeout =
     (let result = [(''host'', PyStr host), (''port'', PyInt port),
                    (''status'', PyStr ''closed''), (''service'', PyStr ''unknown'')]
      in case scan_port3_try_intr intr s host port timeout result of
           (result, None) \<Rightarrow> Inr result
         | (result, Some (Derived e)) \<Rightarrow>
             Inr (AList.update ''error'' (PyStr (exc_str e)) result)
         | (result, Some (Underived b)) \<Rightarrow> Inl b)"

definition port_scanner3_intr ::
  "(int \<Rightarrow> call \<Rightarrow> base_exc option) \<Rightarrow> (int \<Rightarrow> sock_calls) \<Rightarrow> nat list \<Rightarrow> string \<Rightarrow> int \<Rightarrow> int
     \<Rightarrow> int \<Rightarrow> real \<Rightarrow> raised + py_dict list" where
  "port_scanner3_intr intr net order host start_port end_port max_threads timeout =
     (let results = [] in
      case ThreadPoolExecutor max_threads of
        Raises e \<Rightarrow> Inl (Derived e)
      | Returns executor \<Rightarrow>
          (case fold (\<lambda>port (futures, executor).
                    case submit (scan_port3_intr (intr port) (net port) host port timeout)
                           executor of
                      (future, executor) \<Rightarrow> (futures @ [future], executor))
                  [start_port..end_port] ([], executor) of
             (futures, executor) \<Rightarrow>
               (let executor = workers_run order futures executor in
                append_results futures executor results)))"

section \<open>Notions used in the statements\<close>

text \<open>
  The results of a scan are in ascending port order when each result's port is an integer
  below the port of every later result.
\<close>

definition port_before :: "py_dict \<Rightarrow> py_dict \<Rightarrow> bool" where
  "port_before r r' =
     (case (map_of r ''port'', map_of r' ''port'') of
        (Some (PyInt p), Some (PyInt p')) \<Rightarrow> p < p'
      | _ \<Rightarrow> False)"

text \<open>
  The pool is consistent with a list of futures when every future it has finished holds
  the result of that future's own work.
\<close>

definition consistent :: "'a future list \<Rightarrow> 'a thread_pool \<Rightarrow> bool" where
  "consistent fs pool =
     (\<forall>f \<in> set fs. finished pool (fid f) = None \<or> finished pool (fid f) = Some (work f))"

text \<open>
  Sample answers of the network, for concrete runs: a port that refuses the connection
  (\<^verbatim>\<open>ECONNREFUSED\<close>, 111), a port that accepts it but has no entry in the services
  table, a host name that the socket layer cannot resolve, and a process that has run out
  of file descriptors, so that no socket can be created.
\<close>

definition refusing :: sock_calls where
  "refusing =
     \<lparr>socket_new = Returns (), settimeout = (\<lambda>_. Returns ()),
      connect_ex = (\<lambda>_ _. Returns 111),
      getservbyport = (\<lambda>_ _. Raises (PyExc OSError ''port/proto not found'')),
      sock_close = Returns ()\<rparr>"

definition listening :: sock_calls where
  "listening = refusing\<lparr>connect_ex := (\<lambda>_ _. Returns 0)\<rparr>"

definition unresolved :: sock_calls where
  "unresolved =
     refusing\<lparr>connect_ex :=
       (\<lambda>_ _. Raises (PyExc Gaierror ''[Errno -2] Name or service not known''))\<rparr>"

definition exhausted :: sock_calls where
  "exhausted =
     refusing\<lparr>socket_new := Raises (PyExc OSError ''[Errno 24] Too many open files'')\<rparr>"

text \<open>
  Hosts: one on which no port listens, and one on which exactly one port does.
\<close>

definition nobody_listens :: "int \<Rightarrow> sock_calls" where
  "nobody_listens port = refusing"

definition only_listens_on :: "int \<Rightarrow> int \<Rightarrow> sock_calls" where
  "only_listens_on open_port port = (if port = open_port then listening else refusing)"

text \<open>A host on which no port listens, scanned when the probe of one port finds no socket.\<close>

definition probe_fails_on :: "int \<Rightarrow> int \<Rightarrow> sock_calls" where
  "probe_fails_on bad_port port = (if port = bad_port then exhausted else refusing)"

text \<open>
  A socket whose \<^verbatim>\<open>close()\<close> fails after a refused connection, a \<^verbatim>\<open>KeyboardInterrupt\<close>
  that arrives while a probe connects, a probe that nothing from outside reaches, and a
  scan in which the interrupt arrives in the probe of one port.
\<close>

definition close_fails :: sock_calls where
  "close_fails = refusing\<lparr>sock_close := Raises (PyExc OSError ''[Errno 5] Input/output error'')\<rparr>"

definition ctrl_c_at_connect :: "call \<Rightarrow> base_exc option" where
  "ctrl_c_at_connect c = (if c = At_connect_ex then Some (BaseExc KeyboardInterrupt []) else None)"

definition undisturbed :: "call \<Rightarrow> base_exc option" where
  "undisturbed c = None"

definition ctrl_c_in_probe_of :: "int \<Rightarrow> int \<Rightarrow> call \<Rightarrow> base_exc option" where
  "ctrl_c_in_probe_of bad_port port =
     (if port = bad_port then ctrl_c_at_connect else undisturbed)"

text \<open>
  The world of a run of variant 2, and a run in which the host name is malformed, so that
  \<^verbatim>\<open>gethostbyname\<close> raises \<^verbatim>\<open>UnicodeError\<close> for it.
\<close>

definition sample_world :: world where
  "sample_world =
     \<lparr>w_gethostbyname = (\<lambda>h. Returns h),
      w_net = only_listens_on 7,
      w_order = [2, 0, 1],
      w_now = ''2024-01-01T00:00:00'',
      w_open = (\<lambda>_. Returns ()),
      w_files = Map.empty\<rparr>"

definition malformed_host_world :: world where
  "malformed_host_world =
     sample_world\<lparr>w_gethostbyname :=
       (\<lambda>_. Raises (PyExc UnicodeError ''label empty or too long''))\<rparr>"

definition malformed_host_args :: args where
  "malformed_host_args =
     \<lparr>arg_host = ''a..b'', arg_start = 1, arg_end = 1024, arg_threads = 50,
      arg_timeout = 1.0, arg_output = None\<rparr>"

section \<open>The thread pool returns each call's own result\<close>

lemma submit_fold:
  "fold (\<lambda>port (futures, executor).
            case submit (g port) executor of
              (future, executor) \<Rightarrow> (futures @ [future], executor))
        ports (fs, ex) = (fs', ex') \<Longrightarrow>
   map work fs' = map work fs @ map g ports \<and>
   map fid fs' = map fid fs @ [submitted ex ..< submitted ex + length ports] \<and>
   finished ex' = finished ex"
proof (induction ports arbitrary: fs ex)
  case Nil
  then show ?case by simp
next
  case (Cons p ports)
  from Cons.prems
  have "fold (\<lambda>port (futures, executor).
            case submit (g port) executor of
              (future, executor) \<Rightarrow> (futures @ [future], executor))
        ports (fs @ [Future (submitted ex) (g p)], ex\<lparr>submitted := submitted ex + 1\<rparr>)
          = (fs', ex')"
    by (simp add: submit_def)
  from Cons.IH [OF this]
  have w: "map work fs' = map work fs @ g p # map g ports"
    and i: "map fid fs' = map fid fs @
              submitted ex # [Suc (submitted ex) ..< Suc (submitted ex) + length ports]"
    and f: "finished ex' = finished ex"
    by simp_all
  have "[submitted ex ..< submitted ex + length (p # ports)]
          = submitted ex # [Suc (submitted ex) ..< Suc (submitted ex) + length ports]"
    by (simp add: upt_conv_Cons del: upt_Suc)
  with w i f show ?case by (simp del: upt_Suc)
qed

lemma collect_fold:
  "fold (\<lambda>future results. results @ [future_result future ex]) fs rs
     = rs @ map (\<lambda>f. future_result f ex) fs"
  by (induction fs arbitrary: rs) simp_all

lemma consistent_finishes:
  "distinct (map fid fs) \<Longrightarrow> consistent fs pool \<Longrightarrow> f \<in> set fs
     \<Longrightarrow> consistent fs (worker_finishes f pool)"
  unfolding consistent_def worker_finishes_def
  by (auto simp: distinct_map inj_on_def)

lemma consistent_workers_run:
  "distinct (map fid fs) \<Longrightarrow> consistent fs pool \<Longrightarrow> consistent fs (workers_run order fs pool)"
  unfolding workers_run_def
proof (induction order arbitrary: pool)
  case Nil
  then show ?case by simp
next
  case (Cons k order)
  show ?case
  proof (cases "k < length fs")
    case True
    then have "fs ! k \<in> set fs" by simp
    from consistent_finishes [OF Cons.prems(1) Cons.prems(2) this]
      Cons.IH [OF Cons.prems(1)] True
    show ?thesis by simp
  next
    case False
    with Cons show ?thesis by simp
  qed
qed

lemma future_result_work:
  "consistent fs pool \<Longrightarrow> f \<in> set fs \<Longrightarrow> future_result f pool = work f"
  unfolding consistent_def future_result_def by (auto split: option.splits)

lemma pool_run:
  "(case fold (\<lambda>port (futures, executor).
                 case submit (g port) executor of
                   (future, executor) \<Rightarrow> (futures @ [future], executor))
               ports ([], \<lparr>max_workers = n, submitted = 0, finished = Map.empty\<rparr>) of
      (futures, executor) \<Rightarrow>
        Returns (fold (\<lambda>future results.
                         results @ [future_result future (workers_run order futures executor)])
                   futures []))
   = Returns (map g ports)"
proof -
  obtain fs ex where fold:
    "fold (\<lambda>port (futures, executor).
             case submit (g port) executor of
               (future, executor) \<Rightarrow> (futures @ [future], executor))
          ports ([], \<lparr>max_workers = n, submitted = 0, finished = Map.empty\<rparr>) = (fs, ex)"
    by (cases "fold (\<lambda>port (futures, executor).
             case submit (g port) executor of
               (future, executor) \<Rightarrow> (futures @ [future], executor))
          ports ([], \<lparr>max_workers = n, submitted = 0, finished = Map.empty\<rparr>)")
  from submit_fold [OF this]
  have w: "map work fs = map g ports"
    and d: "distinct (map fid fs)" and f: "finished ex = Map.empty"
    by simp_all
  have "consistent fs ex" by (simp add: consistent_def f)
  with d have "consistent fs (workers_run order fs ex)"
    by (rule consistent_workers_run)
  then have "map (\<lambda>f. future_result f (workers_run order fs ex)) fs = map work fs"
    by (simp add: future_result_work)
  with fold w show ?thesis
    by (simp add: collect_fold)
qed

lemma port_scanner_eq:
  "port_scanner net order h s e n =
     (if n \<le> 0 then Raises (PyExc ValueError ''max_workers must be greater than 0'')
      else Returns (map (\<lambda>p. scan_port (net p) h p default_timeout) [s..e]))"
  by (simp add: port_scanner_def ThreadPoolExecutor_def pool_run)

lemma port_scanner3_eq:
  "port_scanner3 net order h s e n t =
     (if n \<le> 0 then Raises (PyExc ValueError ''max_workers must be greater than 0'')
      else Returns (map (\<lambda>p. scan_port3 (net p) h p t) [s..e]))"
  by (simp add: port_scanner3_def ThreadPoolExecutor_def pool_run)

section \<open>The probe\<close>

lemma scan_port3_eq: "scan_port3 = scan_port"
proof (intro ext)
  fix s host port timeout
  show "scan_port3 s host port timeout = scan_port s host port timeout"
    unfolding scan_port3_def scan_port_def scan_port3_try_def scan_port_try_def
      scan_port3_with_def scan_port_with_def ..
qed

lemmas scan_port_defs = scan_port_def scan_port_try_def scan_port_with_def

lemma scan_port_host: "map_of (scan_port s h p t) ''host'' = Some (PyStr h)"
  by (auto simp: scan_port_defs Let_def update_conv' split: outcome.splits)

lemma scan_port_port: "map_of (scan_port s h p t) ''port'' = Some (PyInt p)"
  by (auto simp: scan_port_defs Let_def update_conv' split: outcome.splits)

lemma scan_port_status:
  "map_of (scan_port s h p t) ''status'' =
     Some (PyStr (if socket_new s = Returns () \<and> settimeout s t = Returns ()
                    \<and> connect_ex s h p = Returns 0
                  then ''open'' else ''closed''))"
  by (auto simp: scan_port_defs Let_def update_conv' split: outcome.splits)

lemma scan_port_error:
  "map_of (scan_port s h p t) ''error'' =
     (case socket_new s of
        Raises e \<Rightarrow> Some (PyStr (exc_str e))
      | Returns _ \<Rightarrow>
          (case sock_close s of
             Raises e \<Rightarrow> Some (PyStr (exc_str e))
           | Returns _ \<Rightarrow>
               (case settimeout s t of
                  Raises e \<Rightarrow> Some (PyStr (exc_str e))
                | Returns _ \<Rightarrow>
                    (case connect_ex s h p of
                       Raises e \<Rightarrow> Some (PyStr (exc_str e))
                     | Returns _ \<Rightarrow> None))))"
  by (auto simp: scan_port_defs Let_def update_conv' split: outcome.splits)

lemma scan_port_service:
  "map_of (scan_port s h p t) ''service'' =
     Some (PyStr (if socket_new s = Returns () \<and> settimeout s t = Returns ()
                    \<and> connect_ex s h p = Returns 0
                  then (case getservbyport s p ''tcp'' of
                          Returns name \<Rightarrow> name | Raises _ \<Rightarrow> ''unknown'')
                  else ''unknown''))"
  by (auto simp: scan_port_defs Let_def update_conv' split: outcome.splits)

section \<open>Claims about the probe\<close>

text \<open>
  C2. In both variants, the result of a probe has status \<^verbatim>\<open>"open"\<close> exactly when the
  connect attempt was made (the socket was created and its timeout set) and
  \<^verbatim>\<open>connect_ex\<close> returned 0; in every other case (a non-zero error indicator such as
  a timeout or a refusal, or an exception of any of the calls) the status is
  \<^verbatim>\<open>"closed"\<close>.
\<close>

theorem scan_port_open_iff_connected:
  "((map_of (scan_port s h p t) ''status'' = Some (PyStr ''open''))
      = (socket_new s = Returns () \<and> settimeout s t = Returns () \<and> connect_ex s h p = Returns 0))
   \<and> map_of (scan_port s h p t) ''status''
      = Some (PyStr (if socket_new s = Returns () \<and> settimeout s t = Returns ()
                       \<and> connect_ex s h p = Returns 0
                     then ''open'' else ''closed''))
   \<and> ((map_of (scan_port3 s h p t) ''status'' = Some (PyStr ''open''))
      = (socket_new s = Returns () \<and> settimeout s t = Returns () \<and> connect_ex s h p = Returns 0))
   \<and> map_of (scan_port3 s h p t) ''status''
      = Some (PyStr (if socket_new s = Returns () \<and> settimeout s t = Returns ()
                       \<and> connect_ex s h p = Returns 0
                     then ''open'' else ''closed''))"
  by (simp add: scan_port3_eq scan_port_status)

text \<open>
  C4, as the claim states it, fails: a refused connection is reported by \<^verbatim>\<open>connect_ex\<close>
  through its return value, no exception is raised, and the result has no
  \<^verbatim>\<open>"error"\<close> entry at all.
\<close>

theorem refused_connect_has_no_error_message:
  "scan_port refusing ''127.0.0.1'' 81 1 =
     [(''host'', PyStr ''127.0.0.1''), (''port'', PyInt 81),
      (''status'', PyStr ''closed''), (''service'', PyStr ''unknown'')]
   \<and> map_of (scan_port refusing ''127.0.0.1'' 81 1) ''error'' = None
   \<and> map_of (scan_port3 refusing ''127.0.0.1'' 81 1) ''error'' = None"
  by (simp add: scan_port3_eq scan_port_defs refusing_def)

text \<open>
  C4, amended. In both variants, when the connect attempt is made and fails, the status
  is \<^verbatim>\<open>"closed"\<close>, and the \<^verbatim>\<open>"error"\<close> entry is this: if closing the socket raises,
  the message of that exception; otherwise, if \<^verbatim>\<open>connect_ex\<close> raised the failure as an
  exception (a host that does not resolve, a port out of range), the message of the
  failure; otherwise, that is when \<^verbatim>\<open>connect_ex\<close> reported the failure by a non-zero
  return value (timeout, refusal, unreachable network) and the socket closed, there is no
  \<^verbatim>\<open>"error"\<close> entry.
\<close>

theorem scan_port_connect_failure:
  assumes "socket_new s = Returns ()" and "settimeout s t = Returns ()"
    and "connect_ex s h p \<noteq> Returns 0"
  shows "map_of (scan_port s h p t) ''status'' = Some (PyStr ''closed'')
       \<and> map_of (scan_port s h p t) ''error'' =
           (case sock_close s of
              Raises e' \<Rightarrow> Some (PyStr (exc_str e'))
            | Returns _ \<Rightarrow>
                (case connect_ex s h p of
                   Raises e \<Rightarrow> Some (PyStr (exc_str e))
                 | Returns rc \<Rightarrow> None))
       \<and> map_of (scan_port3 s h p t) ''status'' = Some (PyStr ''closed'')
       \<and> map_of (scan_port3 s h p t) ''error'' =
           (case sock_close s of
              Raises e' \<Rightarrow> Some (PyStr (exc_str e'))
            | Returns _ \<Rightarrow>
                (case connect_ex s h p of
                   Raises e \<Rightarrow> Some (PyStr (exc_str e))
                 | Returns rc \<Rightarrow> None))"
  using assms
  by (simp add: scan_port3_eq scan_port_status scan_port_error split: outcome.splits)

theorem scan_port_connect_failure_witness:
  "socket_new unresolved = Returns () \<and> settimeout unresolved 1 = Returns ()
   \<and> connect_ex unresolved ''no.such.host'' 80 \<noteq> Returns 0
   \<and> map_of (scan_port unresolved ''no.such.host'' 80 1) ''status'' = Some (PyStr ''closed'')
   \<and> map_of (scan_port unresolved ''no.such.host'' 80 1) ''error''
        = Some (PyStr ''[Errno -2] Name or service not known'')
   \<and> map_of (scan_port3 refusing ''127.0.0.1'' 81 1) ''status'' = Some (PyStr ''closed'')
   \<and> map_of (scan_port3 refusing ''127.0.0.1'' 81 1) ''error'' = None
   \<and> map_of (scan_port close_fails ''127.0.0.1'' 81 1) ''status'' = Some (PyStr ''closed'')
   \<and> map_of (scan_port close_fails ''127.0.0.1'' 81 1) ''error''
        = Some (PyStr ''[Errno 5] Input/output error'')"
  using scan_port_connect_failure [of unresolved 1 "''no.such.host''" 80]
    scan_port_connect_failure [of refusing 1 "''127.0.0.1''" 81]
    scan_port_connect_failure [of close_fails 1 "''127.0.0.1''" 81]
  by (simp add: unresolved_def refusing_def close_fails_def)

text \<open>
  C6. In both variants, when the connect succeeds and the service-name lookup raises,
  the result still has status \<^verbatim>\<open>"open"\<close>, its service stays \<^verbatim>\<open>"unknown"\<close>, and the
  lookup's exception is not recorded: the \<^verbatim>\<open>"error"\<close> entry is absent (it is present
  only if closing the socket raises, and then holds that message).
\<close>

theorem scan_port_lookup_failure_swallowed:
  assumes "socket_new s = Returns ()" and "settimeout s t = Returns ()"
    and "connect_ex s h p = Returns 0" and "getservbyport s p ''tcp'' = Raises e"
  shows "map_of (scan_port s h p t) ''status'' = Some (PyStr ''open'')
       \<and> map_of (scan_port s h p t) ''service'' = Some (PyStr ''unknown'')
       \<and> map_of (scan_port s h p t) ''error'' =
           (case sock_close s of Raises e' \<Rightarrow> Some (PyStr (exc_str e')) | Returns _ \<Rightarrow> None)
       \<and> map_of (scan_port3 s h p t) ''status'' = Some (PyStr ''open'')
       \<and> map_of (scan_port3 s h p t) ''service'' = Some (PyStr ''unknown'')
       \<and> map_of (scan_port3 s h p t) ''error'' =
           (case sock_close s of Raises e' \<Rightarrow> Some (PyStr (exc_str e')) | Returns _ \<Rightarrow> None)"
  using assms
  by (simp add: scan_port3_eq scan_port_status scan_port_service scan_port_error
      split: outcome.splits)

theorem scan_port_lookup_failure_swallowed_witness:
  "socket_new listening = Returns () \<and> settimeout listening 1 = Returns ()
   \<and> connect_ex listening ''127.0.0.1'' 8081 = Returns 0
   \<and> getservbyport listening 8081 ''tcp'' = Raises (PyExc OSError ''port/proto not found'')
   \<and> scan_port listening ''127.0.0.1'' 8081 1 =
        [(''host'', PyStr ''127.0.0.1''), (''port'', PyInt 8081),
         (''status'', PyStr ''open''), (''service'', PyStr ''unknown'')]
   \<and> map_of (scan_port3 listening ''127.0.0.1'' 8081 1) ''error'' = None"
  using scan_port_lookup_failure_swallowed
    [of listening 1 "''127.0.0.1''" 8081 "PyExc OSError ''port/proto not found''"]
  by (simp add: listening_def refusing_def scan_port_defs)

section \<open>Exceptions outside Exception propagate, the others do not\<close>

lemma pool_futures:
  assumes "fold (\<lambda>port (futures, executor).
                   case submit (g port) executor of
                     (future, executor) \<Rightarrow> (futures @ [future], executor))
                ports ([], \<lparr>max_workers = n, submitted = 0, finished = Map.empty\<rparr>) = (fs, ex)"
  shows "map work fs = map g ports \<and> consistent fs (workers_run order fs ex)"
proof -
  from submit_fold [OF assms]
  have w: "map work fs = map g ports"
    and d: "distinct (map fid fs)" and f: "finished ex = Map.empty"
    by simp_all
  have "consistent fs ex" by (simp add: consistent_def f)
  with d have "consistent fs (workers_run order fs ex)"
    by (rule consistent_workers_run)
  with w show ?thesis by simp
qed

lemma append_results_all:
  "consistent fs pool \<Longrightarrow> set fs' \<subseteq> set fs \<Longrightarrow> map work fs' = map Inr xs
     \<Longrightarrow> append_results fs' pool rs = Inr (rs @ xs)"
proof (induction fs' arbitrary: rs xs)
  case Nil
  then show ?case by simp
next
  case (Cons f fs')
  from Cons.prems(3) obtain x xs' where xs: "xs = x # xs'" and f: "work f = Inr x"
    and rest: "map work fs' = map Inr xs'"
    by (cases xs) auto
  from Cons.prems(1,2) have "future_result f pool = work f"
    by (simp add: future_result_work)
  with f Cons.IH [OF Cons.prems(1) _ rest, of "rs @ [x]"] Cons.prems(2) xs
  show ?case by simp
qed

lemma call_answer_undisturbed:
  "call_answer (\<lambda>_. None) c answer =
     (case answer of Returns v \<Rightarrow> Inr v | Raises e \<Rightarrow> Inl (Derived e))"
  by (simp add: call_answer_def)

lemmas scan_port_intr_defs = scan_port_intr_def scan_port_try_intr_def scan_port_with_intr_def

lemma scan_port_intr_undisturbed:
  "scan_port_intr (\<lambda>_. None) s h p t = Inr (scan_port s h p t)"
  by (auto simp: scan_port_intr_defs scan_port_defs call_answer_undisturbed Let_def
      split: outcome.splits)

lemma scan_port3_intr_eq: "scan_port3_intr = scan_port_intr"
proof (intro ext)
  fix intr s host port timeout
  show "scan_port3_intr intr s host port timeout = scan_port_intr intr s host port timeout"
    unfolding scan_port3_intr_def scan_port_intr_def scan_port3_try_intr_def
      scan_port_try_intr_def scan_port3_with_intr_def scan_port_with_intr_def ..
qed

lemma port_scanner_intr_undisturbed:
  "port_scanner_intr (\<lambda>_ _. None) net order h s e n =
     (if n \<le> 0 then Inl (Derived (PyExc ValueError ''max_workers must be greater than 0''))
      else Inr (map (\<lambda>p. scan_port (net p) h p default_timeout) [s..e]))"
proof (cases "n \<le> 0")
  case True
  then show ?thesis by (simp add: port_scanner_intr_def ThreadPoolExecutor_def)
next
  case False
  obtain fs ex where fold:
    "fold (\<lambda>port (futures, executor).
             case submit (scan_port_intr (\<lambda>_. None) (net port) h port default_timeout)
                    executor of
               (future, executor) \<Rightarrow> (futures @ [future], executor))
          [s..e] ([], \<lparr>max_workers = n, submitted = 0, finished = Map.empty\<rparr>) = (fs, ex)"
    by (cases "fold (\<lambda>port (futures, executor).
             case submit (scan_port_intr (\<lambda>_. None) (net port) h port default_timeout)
                    executor of
               (future, executor) \<Rightarrow> (futures @ [future], executor))
          [s..e] ([], \<lparr>max_workers = n, submitted = 0, finished = Map.empty\<rparr>)")
  from pool_futures [OF this, of order]
  have w: "map work fs = map Inr (map (\<lambda>p. scan_port (net p) h p default_timeout) [s..e])"
    and c: "consistent fs (workers_run order fs ex)"
    by (simp_all add: scan_port_intr_undisturbed)
  from append_results_all [OF c subset_refl w, of "[]"] False fold
  show ?thesis
    by (simp add: port_scanner_intr_def ThreadPoolExecutor_def)
qed

lemma port_scanner3_intr_undisturbed:
  "port_scanner3_intr (\<lambda>_ _. None) net order h s e n t =
     (if n \<le> 0 then Inl (Derived (PyExc ValueError ''max_workers must be greater than 0''))
      else Inr (map (\<lambda>p. scan_port3 (net p) h p t) [s..e]))"
proof (cases "n \<le> 0")
  case True
  then show ?thesis by (simp add: port_scanner3_intr_def ThreadPoolExecutor_def)
next
  case False
  obtain fs ex where fold:
    "fold (\<lambda>port (futures, executor).
             case submit (scan_port3_intr (\<lambda>_. None) (net port) h port t) executor of
               (future, executor) \<Rightarrow> (futures @ [future], executor))
          [s..e] ([], \<lparr>max_workers = n, submitted = 0, finished = Map.empty\<rparr>) = (fs, ex)"
    by (cases "fold (\<lambda>port (futures, executor).
             case submit (scan_port3_intr (\<lambda>_. None) (net port) h port t) executor of
               (future, executor) \<Rightarrow> (futures @ [future], executor))
          [s..e] ([], \<lparr>max_workers = n, submitted = 0, finished = Map.empty\<rparr>)")
  from pool_futures [OF this, of order]
  have w: "map work fs = map Inr (map (\<lambda>p. scan_port3 (net p) h p t) [s..e])"
    and c: "consistent fs (workers_run order fs ex)"
    by (simp_all add: scan_port3_intr_eq scan_port_intr_undisturbed scan_port3_eq)
  from append_results_all [OF c subset_refl w, of "[]"] False fold
  show ?thesis
    by (simp add: port_scanner3_intr_def ThreadPoolExecutor_def)
qed

text \<open>
  An exception from outside at a call other than the service lookup leaves \<^verbatim>\<open>scan_port\<close>
  when the probe gets as far as that call; at the lookup it is swallowed.
\<close>

lemma scan_port_intr_at_socket:
  "intr At_socket = Some b \<Longrightarrow> scan_port_intr intr s h p t = Inl b"
  by (simp add: scan_port_intr_defs call_answer_def)

lemma scan_port_intr_at_lookup:
  "intr At_socket = None \<Longrightarrow> intr At_settimeout = None \<Longrightarrow> intr At_connect_ex = None
     \<Longrightarrow> intr At_close = None \<Longrightarrow> \<exists>r. scan_port_intr intr s h p t = Inr r"
  by (auto simp: scan_port_intr_defs call_answer_def Let_def
      split: outcome.splits option.splits)

section \<open>Claims about the scan of a port range\<close>

text \<open>
  C1, as the claim states it, fails: the claim leaves the worker cap free, and with a cap
  of 0 (which variant 1's command line hands on unchecked) the pool's constructor
  raises, so \<^verbatim>\<open>port_scanner\<close> returns no list.
\<close>

theorem port_scanner_zero_workers_raises:
  "port_scanner nobody_listens [] ''127.0.0.1'' 1 3 0
     = Raises (PyExc ValueError ''max_workers must be greater than 0'')
   \<and> port_scanner3 nobody_listens [] ''127.0.0.1'' 1 3 0 1
     = Raises (PyExc ValueError ''max_workers must be greater than 0'')"
  by (simp add: port_scanner_def port_scanner3_def ThreadPoolExecutor_def)

text \<open>
  C1, amended. For every host, every worker cap of at least 1 and every port range with
  \<open>start_port \<le> end_port\<close>, \<^verbatim>\<open>port_scanner\<close> (of either variant, whatever the sockets
  answer and in whatever order the workers finish) returns a list of exactly
  \<open>end_port - start_port + 1\<close> results whose ports are, in this order, the integers of
  \<open>[start_port, end_port]\<close>: one result per port, none twice, none left out.
\<close>

theorem port_scanner_one_result_per_port:
  assumes "start_port \<le> end_port" and "1 \<le> max_threads"
  shows "(\<exists>results.
            port_scanner net order h start_port end_port max_threads = Returns results
          \<and> int (length results) = end_port - start_port + 1
          \<and> map (\<lambda>r. map_of r ''port'') results
              = map (\<lambda>p. Some (PyInt p)) [start_port..end_port]
          \<and> distinct (map (\<lambda>r. map_of r ''port'') results))
       \<and> (\<exists>results.
            port_scanner3 net order h start_port end_port max_threads t = Returns results
          \<and> int (length results) = end_port - start_port + 1
          \<and> map (\<lambda>r. map_of r ''port'') results
              = map (\<lambda>p. Some (PyInt p)) [start_port..end_port]
          \<and> distinct (map (\<lambda>r. map_of r ''port'') results))"
proof -
  have inj: "inj_on (\<lambda>p. Some (PyInt p)) A" for A :: "int set"
    by (simp add: inj_on_def)
  have d: "distinct (map (\<lambda>p. Some (PyInt p)) [start_port..end_port])"
    by (simp add: distinct_map inj)
  have ports: "map (\<lambda>r. map_of r ''port'') (map (\<lambda>p. scan_port (net p) h p t') [start_port..end_port])
      = map (\<lambda>p. Some (PyInt p)) [start_port..end_port]" for t'
    by (simp add: scan_port_port comp_def)
  from assms have len: "int (length [start_port..end_port]) = end_port - start_port + 1"
    by simp
  from assms(2) have 1: "port_scanner net order h start_port end_port max_threads
      = Returns (map (\<lambda>p. scan_port (net p) h p default_timeout) [start_port..end_port])"
    by (simp add: port_scanner_eq)
  from assms(2) have 3: "port_scanner3 net order h start_port end_port max_threads t
      = Returns (map (\<lambda>p. scan_port (net p) h p t) [start_port..end_port])"
    by (simp add: port_scanner3_eq scan_port3_eq)
  have dist: "distinct (map (\<lambda>r. map_of r ''port'')
      (map (\<lambda>p. scan_port (net p) h p t') [start_port..end_port]))" for t'
    unfolding ports by (rule d)
  show ?thesis
    unfolding 1 3 using dist len ports by (simp del: length_upto)
qed

theorem port_scanner_one_result_per_port_witness:
  "(1::int) \<le> 3 \<and> (1::int) \<le> 5
   \<and> (\<exists>results.
          port_scanner (only_listens_on 2) [2, 0, 1] ''127.0.0.1'' 1 3 5
            = Returns results
        \<and> length results = 3
        \<and> map (\<lambda>r. map_of r ''port'') results = [Some (PyInt 1), Some (PyInt 2), Some (PyInt 3)])
   \<and> port_scanner3 (only_listens_on 2) [2, 0, 1] ''127.0.0.1'' 1 3 5 1
        = Returns
           [[(''host'', PyStr ''127.0.0.1''), (''port'', PyInt 1),
             (''status'', PyStr ''closed''), (''service'', PyStr ''unknown'')],
            [(''host'', PyStr ''127.0.0.1''), (''port'', PyInt 2),
             (''status'', PyStr ''open''), (''service'', PyStr ''unknown'')],
            [(''host'', PyStr ''127.0.0.1''), (''port'', PyInt 3),
             (''status'', PyStr ''closed''), (''service'', PyStr ''unknown'')]]"
proof -
  have upto: "[1..3] = [1, 2, 3::int]"
    by (simp add: upto_rec1)
  have "port_scanner3 (only_listens_on 2) [2, 0, 1] ''127.0.0.1'' 1 3 5 1
        = Returns
           [[(''host'', PyStr ''127.0.0.1''), (''port'', PyInt 1),
             (''status'', PyStr ''closed''), (''service'', PyStr ''unknown'')],
            [(''host'', PyStr ''127.0.0.1''), (''port'', PyInt 2),
             (''status'', PyStr ''open''), (''service'', PyStr ''unknown'')],
            [(''host'', PyStr ''127.0.0.1''), (''port'', PyInt 3),
             (''status'', PyStr ''closed''), (''service'', PyStr ''unknown'')]]"
    by (simp add: port_scanner3_eq scan_port3_eq upto scan_port_defs only_listens_on_def
        listening_def refusing_def)
  moreover
  have "\<exists>results.
          port_scanner (only_listens_on 2) [2, 0, 1] ''127.0.0.1'' 1 3 5
            = Returns results
        \<and> length results = 3
        \<and> map (\<lambda>r. map_of r ''port'') results = [Some (PyInt 1), Some (PyInt 2), Some (PyInt 3)]"
    using port_scanner_one_result_per_port
      [of 1 3 5 "only_listens_on 2" "[2, 0, 1]" "''127.0.0.1''" 1]
    by (auto simp: upto)
  ultimately show ?thesis by simp
qed

text \<open>
  C3. In both variants the outcome of \<^verbatim>\<open>port_scanner\<close> is the same for every order in
  which the workers finish the probes, and the list it returns is in ascending port
  number: its ports are the integers from \<open>start_port\<close> to \<open>end_port\<close> in this order, and
  each result's port is below the port of every later result.
\<close>

theorem port_scanner_ascending_whatever_order:
  "port_scanner net order h s e n = port_scanner net order' h s e n
   \<and> port_scanner3 net order h s e n t = port_scanner3 net order' h s e n t
   \<and> (\<exists>results.
         map (\<lambda>r. map_of r ''port'') results = map (\<lambda>p. Some (PyInt p)) [s..e]
       \<and> sorted_wrt port_before results
       \<and> port_scanner net order h s e n
           = (if n \<le> 0 then Raises (PyExc ValueError ''max_workers must be greater than 0'')
              else Returns results))
   \<and> (\<exists>results.
         map (\<lambda>r. map_of r ''port'') results = map (\<lambda>p. Some (PyInt p)) [s..e]
       \<and> sorted_wrt port_before results
       \<and> port_scanner3 net order h s e n t
           = (if n \<le> 0 then Raises (PyExc ValueError ''max_workers must be greater than 0'')
              else Returns results))"
proof -
  have asc: "sorted_wrt port_before (map (\<lambda>p. scan_port (net p) h p t') [s..e])" for t'
  proof -
    have "sorted_wrt (\<lambda>p q. port_before (scan_port (net p) h p t') (scan_port (net q) h q t')) [s..e]"
      by (rule sorted_wrt_mono_rel [OF _ sorted_wrt_upto])
        (simp add: port_before_def scan_port_port)
    then show ?thesis by (simp add: sorted_wrt_map)
  qed
  have ports: "map (\<lambda>r. map_of r ''port'') (map (\<lambda>p. scan_port (net p) h p t') [s..e])
      = map (\<lambda>p. Some (PyInt p)) [s..e]" for t'
    by (simp add: scan_port_port comp_def)
  have 1: "\<exists>results.
         map (\<lambda>r. map_of r ''port'') results = map (\<lambda>p. Some (PyInt p)) [s..e]
       \<and> sorted_wrt port_before results
       \<and> port_scanner net order h s e n
           = (if n \<le> 0 then Raises (PyExc ValueError ''max_workers must be greater than 0'')
              else Returns results)"
    using asc ports port_scanner_eq by blast
  have 3: "\<exists>results.
         map (\<lambda>r. map_of r ''port'') results = map (\<lambda>p. Some (PyInt p)) [s..e]
       \<and> sorted_wrt port_before results
       \<and> port_scanner3 net order h s e n t
           = (if n \<le> 0 then Raises (PyExc ValueError ''max_workers must be greater than 0'')
              else Returns results)"
    unfolding port_scanner3_eq scan_port3_eq using asc ports by blast
  have "port_scanner net order h s e n = port_scanner net order' h s e n"
    by (simp only: port_scanner_eq)
  moreover have "port_scanner3 net order h s e n t = port_scanner3 net order' h s e n t"
    by (simp only: port_scanner3_eq)
  ultimately show ?thesis using 1 3 by blast
qed

text \<open>
  C5, as the claim states it, fails: \<^verbatim>\<open>scan_port\<close> catches with \<^verbatim>\<open>except Exception\<close>,
  so a \<^verbatim>\<open>KeyboardInterrupt\<close> that arrives while the probe connects is not caught and
  leaves \<^verbatim>\<open>scan_port\<close>, which returns no result; when it happens in the probe of one
  port of a scan, \<^verbatim>\<open>future.result()\<close> raises it again and \<^verbatim>\<open>port_scanner\<close> returns
  no list.
\<close>

theorem keyboard_interrupt_leaves_scan_port:
  "scan_port_intr ctrl_c_at_connect refusing ''127.0.0.1'' 81 1
     = Inl (BaseExc KeyboardInterrupt '''')
   \<and> scan_port3_intr ctrl_c_at_connect refusing ''127.0.0.1'' 81 1
     = Inl (BaseExc KeyboardInterrupt '''')
   \<and> port_scanner_intr (ctrl_c_in_probe_of 2) nobody_listens [2, 0, 1] ''127.0.0.1'' 1 3 5
     = Inl (Underived (BaseExc KeyboardInterrupt ''''))
   \<and> port_scanner3_intr (ctrl_c_in_probe_of 2) nobody_listens [2, 0, 1] ''127.0.0.1'' 1 3 5 1
     = Inl (Underived (BaseExc KeyboardInterrupt ''''))"
proof -
  have upto: "[1..3] = [1, 2, 3::int]"
    by (simp add: upto_rec1)
  have probe: "scan_port_intr ctrl_c_at_connect refusing ''127.0.0.1'' 2 t
      = Inl (BaseExc KeyboardInterrupt '''')" for t
    by (simp add: scan_port_intr_defs call_answer_def ctrl_c_at_connect_def refusing_def)
  have quiet: "scan_port_intr undisturbed refusing ''127.0.0.1'' p t
      = Inr [(''host'', PyStr ''127.0.0.1''), (''port'', PyInt p),
             (''status'', PyStr ''closed''), (''service'', PyStr ''unknown'')]" for p t
    by (simp add: scan_port_intr_defs call_answer_def undisturbed_def refusing_def)
  have 1: "scan_port_intr ctrl_c_at_connect refusing ''127.0.0.1'' 81 1
      = Inl (BaseExc KeyboardInterrupt '''')"
    by (simp add: scan_port_intr_defs call_answer_def ctrl_c_at_connect_def refusing_def)
  have 2: "port_scanner_intr (ctrl_c_in_probe_of 2) nobody_listens [2, 0, 1] ''127.0.0.1'' 1 3 5
      = Inl (Underived (BaseExc KeyboardInterrupt ''''))"
    by (simp add: port_scanner_intr_def ThreadPoolExecutor_def upto submit_def workers_run_def
        worker_finishes_def future_result_def ctrl_c_in_probe_of_def nobody_listens_def
        probe quiet)
  have 3: "port_scanner3_intr (ctrl_c_in_probe_of 2) nobody_listens [2, 0, 1] ''127.0.0.1'' 1 3 5 1
      = Inl (Underived (BaseExc KeyboardInterrupt ''''))"
    by (simp add: port_scanner3_intr_def scan_port3_intr_eq ThreadPoolExecutor_def upto
        submit_def workers_run_def worker_finishes_def future_result_def
        ctrl_c_in_probe_of_def nobody_listens_def probe quiet)
  from 1 2 3 show ?thesis
    by (simp add: scan_port3_intr_eq)
qed

text \<open>
  C5, amended. In both variants, an exception that derives from \<^verbatim>\<open>Exception\<close> and is
  raised inside a probe does not leave \<^verbatim>\<open>scan_port\<close>. When the calls of a probe raise no
  other exception, \<^verbatim>\<open>scan_port\<close> returns a result: the exception that leaves the
  \<^verbatim>\<open>try\<close> block (of creating the socket, of closing it, of setting the timeout or of
  connecting) is stored as text under \<^verbatim>\<open>"error"\<close>, and the result has its host, its
  port, a status that is \<^verbatim>\<open>"open"\<close> or \<^verbatim>\<open>"closed"\<close> and a service. So a probe that
  fails with such an exception does not make \<^verbatim>\<open>port_scanner\<close> raise: when the probes
  raise no other exception, \<^verbatim>\<open>port_scanner\<close> raises only for a worker cap that is not
  positive, before any probe, and otherwise returns for each port of the range the result
  of that port's own probe.
\<close>

theorem probe_exceptions_do_not_propagate:
  "scan_port_intr (\<lambda>_. None) s h p t = Inr (scan_port s h p t)
   \<and> scan_port3_intr (\<lambda>_. None) s h p t = Inr (scan_port3 s h p t)
   \<and> map_of (scan_port s h p t) ''error'' =
     (case socket_new s of
        Raises e \<Rightarrow> Some (PyStr (exc_str e))
      | Returns _ \<Rightarrow>
          (case sock_close s of
             Raises e \<Rightarrow> Some (PyStr (exc_str e))
           | Returns _ \<Rightarrow>
               (case settimeout s t of
                  Raises e \<Rightarrow> Some (PyStr (exc_str e))
                | Returns _ \<Rightarrow>
                    (case connect_ex s h p of
                       Raises e \<Rightarrow> Some (PyStr (exc_str e))
                     | Returns _ \<Rightarrow> None))))
   \<and> map_of (scan_port s h p t) ''host'' = Some (PyStr h)
   \<and> map_of (scan_port s h p t) ''port'' = Some (PyInt p)
   \<and> (\<exists>st sv. map_of (scan_port s h p t) ''status'' = Some (PyStr st)
         \<and> (st = ''open'' \<or> st = ''closed'')
         \<and> map_of (scan_port s h p t) ''service'' = Some (PyStr sv))
   \<and> scan_port3 s h p t = scan_port s h p t
   \<and> port_scanner_intr (\<lambda>_ _. None) net order h start_port end_port n =
       (if n \<le> 0 then Inl (Derived (PyExc ValueError ''max_workers must be greater than 0''))
        else Inr (map (\<lambda>port. scan_port (net port) h port 1) [start_port..end_port]))
   \<and> port_scanner3_intr (\<lambda>_ _. None) net order h start_port end_port n t =
       (if n \<le> 0 then Inl (Derived (PyExc ValueError ''max_workers must be greater than 0''))
        else Inr (map (\<lambda>port. scan_port3 (net port) h port t) [start_port..end_port]))
   \<and> port_scanner net order h start_port end_port n =
       (if n \<le> 0 then Raises (PyExc ValueError ''max_workers must be greater than 0'')
        else Returns (map (\<lambda>port. scan_port (net port) h port 1) [start_port..end_port]))
   \<and> port_scanner3 net order h start_port end_port n t =
       (if n \<le> 0 then Raises (PyExc ValueError ''max_workers must be greater than 0'')
        else Returns (map (\<lambda>port. scan_port3 (net port) h port t) [start_port..end_port]))"
proof -
  have "\<exists>st sv. map_of (scan_port s h p t) ''status'' = Some (PyStr st)
         \<and> (st = ''open'' \<or> st = ''closed'')
         \<and> map_of (scan_port s h p t) ''service'' = Some (PyStr sv)"
    by (simp add: scan_port_status scan_port_service)
  moreover have "port_scanner net order h start_port end_port n =
       (if n \<le> 0 then Raises (PyExc ValueError ''max_workers must be greater than 0'')
        else Returns (map (\<lambda>port. scan_port (net port) h port 1) [start_port..end_port]))"
    by (simp add: port_scanner_eq default_timeout_def)
  moreover have "port_scanner_intr (\<lambda>_ _. None) net order h start_port end_port n =
       (if n \<le> 0 then Inl (Derived (PyExc ValueError ''max_workers must be greater than 0''))
        else Inr (map (\<lambda>port. scan_port (net port) h port 1) [start_port..end_port]))"
    by (simp add: port_scanner_intr_undisturbed default_timeout_def)
  moreover have "scan_port3_intr (\<lambda>_. None) s h p t = Inr (scan_port3 s h p t)"
    by (simp add: scan_port3_intr_eq scan_port_intr_undisturbed scan_port3_eq)
  ultimately show ?thesis
    using scan_port_error [of s h p t] scan_port_host [of s h p t] scan_port_port [of s h p t]
      port_scanner3_eq [of net order h start_port end_port n t]
      port_scanner3_intr_undisturbed [of net order h start_port end_port n t]
      scan_port_intr_undisturbed [of s h p t]
    by (simp only: scan_port3_eq simp_thms)
qed

text \<open>
  A scan of ports 1 to 3 in which the probe of port 2 cannot even create its socket: the
  scan returns three results, the one of port 2 carries the message, the other two are
  what they are in a scan without the failure.
\<close>

theorem probe_exceptions_do_not_propagate_witness:
  "port_scanner (probe_fails_on 2) [1, 2, 0] ''127.0.0.1'' 1 3 5
     = Returns
        [[(''host'', PyStr ''127.0.0.1''), (''port'', PyInt 1),
          (''status'', PyStr ''closed''), (''service'', PyStr ''unknown'')],
         [(''host'', PyStr ''127.0.0.1''), (''port'', PyInt 2),
          (''status'', PyStr ''closed''), (''service'', PyStr ''unknown''),
          (''error'', PyStr ''[Errno 24] Too many open files'')],
         [(''host'', PyStr ''127.0.0.1''), (''port'', PyInt 3),
          (''status'', PyStr ''closed''), (''service'', PyStr ''unknown'')]]"
proof -
  have upto: "[1..3] = [1, 2, 3::int]"
    by (simp add: upto_rec1)
  from probe_exceptions_do_not_propagate
    [where net = "probe_fails_on 2" and order = "[1, 2, 0]"
       and h = "''127.0.0.1''" and start_port = 1 and end_port = 3 and n = 5]
  have "port_scanner (probe_fails_on 2) [1, 2, 0] ''127.0.0.1'' 1 3 5
      = Returns (map (\<lambda>port. scan_port (probe_fails_on 2 port) ''127.0.0.1'' port 1) [1..3])"
    by simp
  then show ?thesis
    by (simp add: upto scan_port_defs probe_fails_on_def exhausted_def refusing_def)
qed

text \<open>
  C10. \<^verbatim>\<open>scan_port\<close> is the same function in both variants. For every host, port range
  and worker cap, and the same answers of the network, variant 1's \<^verbatim>\<open>port_scanner\<close>
  has the outcome of variant 2's with timeout 1.0. Variant 1 sets no other timeout than
  1.0: what \<^verbatim>\<open>settimeout\<close> would answer to any other value has no effect on its outcome.
\<close>

theorem variants_agree_at_default_timeout:
  "scan_port3 = scan_port
   \<and> port_scanner net order h s e n = port_scanner3 net order h s e n 1
   \<and> port_scanner (\<lambda>p. (net p)\<lparr>settimeout := (\<lambda>_. settimeout (net p) 1)\<rparr>) order h s e n
       = port_scanner net order h s e n"
proof -
  have "scan_port (c\<lparr>settimeout := (\<lambda>_. settimeout c 1)\<rparr>) h p 1 = scan_port c h p 1" for c p
    by (auto simp: scan_port_defs Let_def split: outcome.splits)
  then show ?thesis
    by (simp add: scan_port3_eq port_scanner_eq port_scanner3_eq default_timeout_def)
qed

section \<open>Claims about the report and the command line\<close>

text \<open>
  C7. In both variants, for a list of results whose first element (when there is one)
  has a \<^verbatim>\<open>"host"\<close> entry, \<^verbatim>\<open>export_to_json\<close> either fails to open the file or writes a
  report whose \<^verbatim>\<open>"host"\<close> is that entry of the first result, or \<^verbatim>\<open>"unknown"\<close> for the
  empty list, and whose \<^verbatim>\<open>"scan_results"\<close> is the list of the given results, each as
  it was given and in the given order.
\<close>

theorem export_to_json_report:
  assumes "data \<noteq> [] \<Longrightarrow> map_of (hd data) ''host'' = Some host_value"
  shows "export_to_json now open_w data filename files =
           (case open_w filename of
              Raises e \<Rightarrow> Raises e
            | Returns _ \<Rightarrow>
                Returns (files(filename \<mapsto> PyDict
                           [(''timestamp'', PyStr now),
                            (''host'', if data = [] then PyStr ''unknown'' else host_value),
                            (''scan_results'', PyList (map PyDict data))]),
                         ''Results saved to '' @ filename))
       \<and> export_to_json3 now open_w data filename files =
           (case open_w filename of
              Raises e \<Rightarrow> Raises e
            | Returns _ \<Rightarrow>
                Returns (files(filename \<mapsto> PyDict
                           [(''timestamp'', PyStr now),
                            (''host'', if data = [] then PyStr ''unknown'' else host_value),
                            (''scan_results'', PyList (map PyDict data))]),
                         ''Results saved to '' @ filename))"
  using assms
  by (auto simp: export_to_json_def export_to_json3_def getitem_def split: outcome.splits)

theorem export_to_json_report_witness:
  "map_of (hd [scan_port listening ''127.0.0.1'' 80 1, scan_port refusing ''127.0.0.1'' 81 1])
       ''host'' = Some (PyStr ''127.0.0.1'')
   \<and> export_to_json ''2024-01-01T00:00:00'' (\<lambda>_. Returns ())
         [scan_port listening ''127.0.0.1'' 80 1, scan_port refusing ''127.0.0.1'' 81 1]
         ''scan.json'' Map.empty
       = Returns ([''scan.json'' \<mapsto> PyDict
                    [(''timestamp'', PyStr ''2024-01-01T00:00:00''),
                     (''host'', PyStr ''127.0.0.1''),
                     (''scan_results'', PyList
                        [PyDict [(''host'', PyStr ''127.0.0.1''), (''port'', PyInt 80),
                                 (''status'', PyStr ''open''), (''service'', PyStr ''unknown'')],
                         PyDict [(''host'', PyStr ''127.0.0.1''), (''port'', PyInt 81),
                                 (''status'', PyStr ''closed''),
                                 (''service'', PyStr ''unknown'')]])]],
                  ''Results saved to scan.json'')
   \<and> export_to_json3 ''2024-01-01T00:00:00'' (\<lambda>_. Returns ()) [] ''scan.json'' Map.empty
       = Returns ([''scan.json'' \<mapsto> PyDict
                    [(''timestamp'', PyStr ''2024-01-01T00:00:00''),
                     (''host'', PyStr ''unknown''),
                     (''scan_results'', PyList [])]],
                  ''Results saved to scan.json'')"
proof -
  have r1: "scan_port listening ''127.0.0.1'' 80 1 =
      [(''host'', PyStr ''127.0.0.1''), (''port'', PyInt 80),
       (''status'', PyStr ''open''), (''service'', PyStr ''unknown'')]"
    by (simp add: scan_port_defs listening_def refusing_def)
  have r2: "scan_port refusing ''127.0.0.1'' 81 1 =
      [(''host'', PyStr ''127.0.0.1''), (''port'', PyInt 81),
       (''status'', PyStr ''closed''), (''service'', PyStr ''unknown'')]"
    by (simp add: scan_port_defs refusing_def)
  show ?thesis
    using export_to_json_report
        [of "[scan_port listening ''127.0.0.1'' 80 1, scan_port refusing ''127.0.0.1'' 81 1]"
          "PyStr ''127.0.0.1''" "''2024-01-01T00:00:00''" "\<lambda>_. Returns ()" "''scan.json''"
          Map.empty]
      export_to_json_report
        [of "[]" "PyStr ''127.0.0.1''" "''2024-01-01T00:00:00''" "\<lambda>_. Returns ()"
          "''scan.json''" Map.empty]
    by (simp add: r1 r2)
qed

text \<open>
  C8. The claim fails for a host that cannot be resolved because its name is malformed:
  for \<^verbatim>\<open>a..b\<close> \<^verbatim>\<open>gethostbyname\<close> raises \<^verbatim>\<open>UnicodeError\<close>, which
  \<^verbatim>\<open>except socket.gaierror\<close> does not catch, and the run of variant 2 ends with a
  traceback and exit status 1, without the usage error of \<^verbatim>\<open>parser.error\<close>. (It does
  end before the scan.)
\<close>

theorem main3_malformed_host_traceback:
  "main3 malformed_host_world malformed_host_args =
     \<lparr>exit_status = 1,
      events = [Call_gethostbyname ''a..b'',
                Traceback (PyExc UnicodeError ''label empty or too long'')],
      files_after = Map.empty\<rparr>"
  by (simp add: main3_def uncaught_def malformed_host_world_def malformed_host_args_def
      sample_world_def)

text \<open>
  For the other arguments that the validation of variant 2 is written for, it does what
  it is written for: when the start port is below 1, or the end port above 65535, or the
  start above the end, or the thread count outside 1 to 1000, or \<^verbatim>\<open>gethostbyname\<close>
  raises \<^verbatim>\<open>socket.gaierror\<close>, the run ends with the usage error of \<^verbatim>\<open>parser.error\<close>
  and exit status 2. Nothing but the name resolution has happened before:
  \<^verbatim>\<open>port_scanner\<close> was not called, so no probe was made, and no file was written.
\<close>

theorem main3_rejects_invalid_arguments:
  assumes "arg_start a < 1 \<or> arg_end a > 65535 \<or> arg_start a > arg_end a
         \<or> arg_threads a < 1 \<or> arg_threads a > 1000
         \<or> (\<exists>msg. w_gethostbyname w (arg_host a) = Raises (PyExc Gaierror msg))"
  shows "exit_status (main3 w a) = 2
       \<and> (\<exists>msg. events (main3 w a) = [Parser_error msg]
                \<or> events (main3 w a) = [Call_gethostbyname (arg_host a), Parser_error msg])
       \<and> (\<forall>h s e n t. Call_port_scanner h s e n t \<notin> set (events (main3 w a)))
       \<and> (\<forall>f. Call_export_to_json f \<notin> set (events (main3 w a)))
       \<and> files_after (main3 w a) = w_files w"
  using assms
  by (auto simp: main3_def parser_error_def)

theorem main3_rejects_invalid_arguments_witness:
  "arg_start \<lparr>arg_host = ''127.0.0.1'', arg_start = 2000, arg_end = 1000, arg_threads = 50,
               arg_timeout = 1, arg_output = None\<rparr>
     > arg_end \<lparr>arg_host = ''127.0.0.1'', arg_start = 2000, arg_end = 1000, arg_threads = 50,
                 arg_timeout = 1, arg_output = None\<rparr>
   \<and> main3 sample_world
        \<lparr>arg_host = ''127.0.0.1'', arg_start = 2000, arg_end = 1000, arg_threads = 50,
         arg_timeout = 1, arg_output = None\<rparr>
       = \<lparr>exit_status = 2,
          events = [Parser_error
            ''Invalid port range. Ports must be between 1-65535 and start <= end.''],
          files_after = Map.empty\<rparr>
   \<and> main3 sample_world
        \<lparr>arg_host = ''127.0.0.1'', arg_start = 1, arg_end = 1024, arg_threads = 0,
         arg_timeout = 1, arg_output = None\<rparr>
       = \<lparr>exit_status = 2,
          events = [Parser_error ''Threads must be between 1 and 1000.''],
          files_after = Map.empty\<rparr>
   \<and> main3 (sample_world\<lparr>w_gethostbyname :=
                (\<lambda>_. Raises (PyExc Gaierror ''[Errno -2] Name or service not known''))\<rparr>)
        \<lparr>arg_host = ''no.such.host'', arg_start = 1, arg_end = 1024, arg_threads = 50,
         arg_timeout = 1, arg_output = None\<rparr>
       = \<lparr>exit_status = 2,
          events = [Call_gethostbyname ''no.such.host'',
                    Parser_error ''Cannot resolve host no.such.host''],
          files_after = Map.empty\<rparr>"
  using main3_rejects_invalid_arguments
    [of "\<lparr>arg_host = ''127.0.0.1'', arg_start = 2000, arg_end = 1000, arg_threads = 50,
          arg_timeout = 1, arg_output = None\<rparr>" sample_world]
  by (simp add: main3_def parser_error_def sample_world_def)

text \<open>
  Any other exception of \<^verbatim>\<open>gethostbyname\<close> is not caught: the run ends with a
  traceback and status 1, again before the scan.
\<close>

lemma main3_resolver_exception:
  assumes "1 \<le> arg_start a" and "arg_start a \<le> arg_end a" and "arg_end a \<le> 65535"
    and "1 \<le> arg_threads a" and "arg_threads a \<le> 1000"
    and "w_gethostbyname w (arg_host a) = Raises e" and "exc_cls e \<noteq> Gaierror"
  shows "main3 w a =
           \<lparr>exit_status = 1, events = [Call_gethostbyname (arg_host a), Traceback e],
            files_after = w_files w\<rparr>"
  using assms by (simp add: main3_def uncaught_def)

text \<open>
  A run of variant 2 with valid arguments, for comparison: ports 6 to 8 of a host on
  which only port 7 listens.
\<close>

lemma main3_valid_run:
  "exit_status (main3 sample_world
        \<lparr>arg_host = ''127.0.0.1'', arg_start = 6, arg_end = 8, arg_threads = 5,
         arg_timeout = 0.2, arg_output = None\<rparr>) = 0
   \<and> events (main3 sample_world
        \<lparr>arg_host = ''127.0.0.1'', arg_start = 6, arg_end = 8, arg_threads = 5,
         arg_timeout = 0.2, arg_output = None\<rparr>)
       = [Call_gethostbyname ''127.0.0.1'', Print_scanning ''127.0.0.1'' 6 8,
          Call_port_scanner ''127.0.0.1'' 6 8 5 0.2, Call_export_to_json ''scan_127.0.0.1.json'',
          Print_line ''Results saved to scan_127.0.0.1.json'', Print_summary 1 [PyInt 7]]"
proof -
  have upto: "[6..8] = [6, 7, 8::int]"
    by (simp add: upto_rec1)
  show ?thesis
    by (simp add: main3_def sample_world_def port_scanner3_eq scan_port3_eq upto scan_port_defs
        only_listens_on_def listening_def refusing_def export_to_json3_def getitem_def Let_def)
qed

end
